theory Spec2Isabelle
  imports Main
begin

section \<open>Python values, exceptions and the outside world\<close>

text \<open>
  The module \<^verbatim>\<open>week1/week1_exercise/managers.py\<close> holds two classes,
  \<^verbatim>\<open>OpenAIManager\<close> and \<^verbatim>\<open>OllamaManager\<close>. Both talk to libraries outside the
  repository (\<^verbatim>\<open>openai\<close>, \<^verbatim>\<open>requests\<close>, \<^verbatim>\<open>IPython.display\<close>, \<^verbatim>\<open>os\<close>). What
  the network, the file system and the environment answer is a parameter of every
  operation (the record \<open>world\<close> and the process environment), and what the code asks
  of them is recorded as a list of events. Of IPython, the constructor
  \<^verbatim>\<open>Markdown\<close> is modelled, since what it does with its argument decides what is
  displayed and whether the call returns.
\<close>

text \<open>
  The values a decoded JSON body can hold, and \<^verbatim>\<open>None\<close>. A dictionary is an
  association list; a float is kept as its literal text, since the code never computes
  with one.
\<close>

datatype py_value =
    PyNone
  | PyBool bool
  | PyInt int
  | PyFloat string
  | PyStr string
  | PyList "py_value list"
  | PyDict "(string \<times> py_value) list"

text \<open>
  Exceptions. Every class below derives from Python's \<^verbatim>\<open>Exception\<close>, so a handler
  \<^verbatim>\<open>except Exception\<close> catches each of them. The classes of
  \<^verbatim>\<open>requests.exceptions\<close> derive from \<^verbatim>\<open>RequestException\<close>; the builtin ones and
  the one of the \<^verbatim>\<open>openai\<close> package do not (\<^verbatim>\<open>OSError\<close> stands for its
  subclasses too, such as \<^verbatim>\<open>IsADirectoryError\<close> and \<^verbatim>\<open>URLError\<close>). Asynchronous interrupts
  (\<^verbatim>\<open>KeyboardInterrupt\<close>, \<^verbatim>\<open>SystemExit\<close>) are not library failures and are not
  modelled.
\<close>

datatype exc_class =
    ValueError
  | TypeError
  | IndexError
  | AttributeError
  | OSError
  | OpenAIError
  | RequestException
  | ConnectionError
  | Timeout
  | HTTPError
  | JSONDecodeError

datatype py_exception = PyExc (exc_cls: exc_class) (exc_str: string)

fun is_request_class :: "exc_class \<Rightarrow> bool" where
  "is_request_class RequestException = True"
| "is_request_class ConnectionError = True"
| "is_request_class Timeout = True"
| "is_request_class HTTPError = True"
| "is_request_class JSONDecodeError = True"
| "is_request_class ValueError = False"
| "is_request_class TypeError = False"
| "is_request_class IndexError = False"
| "is_request_class AttributeError = False"
| "is_request_class OSError = False"
| "is_request_class OpenAIError = False"

definition isinstance_RequestException :: "py_exception \<Rightarrow> bool" where
  "isinstance_RequestException e = is_request_class (exc_cls e)"

text \<open>The process environment read by \<^verbatim>\<open>os.getenv\<close>.\<close>

type_synonym environ = "string \<rightharpoonup> string"

definition os_getenv :: "environ \<Rightarrow> string \<Rightarrow> string option" where
  "os_getenv env name = env name"

text \<open>
  Truth value of an \<^verbatim>\<open>Optional[str]\<close>: \<^verbatim>\<open>None\<close> and the empty string are false.
  \<^verbatim>\<open>a or b\<close> is \<open>a\<close> when \<open>a\<close> is true, else \<open>b\<close>.
\<close>

definition truthy :: "string option \<Rightarrow> bool" where
  "truthy v = (case v of None \<Rightarrow> False | Some s \<Rightarrow> s \<noteq> [])"

definition py_or :: "string option \<Rightarrow> string option \<Rightarrow> string option" where
  "py_or a b = (if truthy a then a else b)"

subsection \<open>The hosted completion API\<close>

text \<open>
  The handle returned by \<^verbatim>\<open>OpenAI(api_key=...)\<close> is opaque; it records the key it
  was built with.
\<close>

datatype openai_client = OpenAI (client_api_key: "string option")

record chat_message =
  role :: string
  content :: string

record chat_request =
  req_model :: string
  req_messages :: "chat_message list"
  req_stream :: bool

text \<open>
  A completion: for each choice, its \<^verbatim>\<open>message.content\<close>, which the API types as an
  optional string.
\<close>

record chat_completion =
  choices :: "string option list"

subsection \<open>The local daemon, through \<^verbatim>\<open>requests\<close>\<close>

record generate_payload =
  payload_model :: string
  payload_prompt :: string
  payload_stream :: bool

text \<open>
  A response object: its status, the reason phrase and URL that
  \<^verbatim>\<open>raise_for_status\<close> quotes, and what calling \<^verbatim>\<open>.json()\<close> on it gives (the
  decoded body, or the decoding error).
\<close>

record http_response =
  status_code :: int
  reason :: string
  url :: string
  json_result :: "py_exception + py_value"

text \<open>
  The world answers the three network calls of the module, and what IPython's
  \<^verbatim>\<open>Markdown\<close> asks when it is given a string: whether a path exists
  (\<^verbatim>\<open>os.path.exists\<close>), what reading a file gives, what opening a URL gives, and the
  text of \<^verbatim>\<open>repr\<close> that its \<^verbatim>\<open>TypeError\<close> quotes.
\<close>

record world =
  chat_completions_create :: "openai_client \<Rightarrow> chat_request \<Rightarrow> py_exception + chat_completion"
  requests_get :: "string \<Rightarrow> nat \<Rightarrow> py_exception + http_response"
  requests_post :: "string \<Rightarrow> generate_payload \<Rightarrow> nat \<Rightarrow> py_exception + http_response"
  path_exists :: "string \<Rightarrow> bool"
  read_file :: "string \<Rightarrow> py_exception + string"
  urlopen :: "string \<Rightarrow> py_exception + string"
  py_repr :: "py_value \<Rightarrow> string"

text \<open>
  The calls a method makes, in order: the requests it sends (with their timeout in
  seconds) and \<open>Display v\<close> when it reaches \<^verbatim>\<open>display(Markdown(v))\<close> with the value
  \<open>v\<close>. An event records that the call was made, whatever its outcome.
\<close>

datatype event =
    ChatCreate openai_client chat_request
  | HttpGet string nat
  | HttpPost string generate_payload nat
  | Display py_value

text \<open>
  The outcome of a method call: the object after the call, the events in order, what
  the notebook displays (the data of each \<^verbatim>\<open>Markdown\<close> object that was displayed),
  and the returned value or the exception that left the method.
\<close>

record 's run =
  self_after :: 's
  trace :: "event list"
  shown :: "py_value list"
  result :: "py_exception + py_value"




subsection \<open>The renderer\<close>

text \<open>
  \<^verbatim>\<open>Markdown(data)\<close> of \<^verbatim>\<open>IPython.display\<close>, a \<^verbatim>\<open>TextDisplayObject\<close>: the data
  the constructed object holds, or the exception the constructor raises. A string that
  starts with \<^verbatim>\<open>http\<close> is taken as a URL and downloaded; otherwise a string that
  names an existing path is taken as a file and read; any other string is the text
  itself. \<^verbatim>\<open>None\<close> is kept. Any other value fails the constructor's check with a
  \<^verbatim>\<open>TypeError\<close>.
\<close>

definition Markdown :: "world \<Rightarrow> py_value \<Rightarrow> py_exception + py_value" where
  "Markdown w data =
     (case data of
        PyNone \<Rightarrow> Inr PyNone
      | PyStr s \<Rightarrow>
          (if take 4 s = ''http''
           then (case urlopen w s of Inl e \<Rightarrow> Inl e | Inr text \<Rightarrow> Inr (PyStr text))
           else if path_exists w s
           then (case read_file w s of Inl e \<Rightarrow> Inl e | Inr text \<Rightarrow> Inr (PyStr text))
           else Inr (PyStr s))
      | _ \<Rightarrow> Inl (PyExc TypeError (''Markdown expects text, not '' @ py_repr w data)))"

text \<open>
  The last two statements of both \<^verbatim>\<open>display_response\<close> methods,
  \<^verbatim>\<open>display(Markdown(answer))\<close> and \<^verbatim>\<open>return None\<close>, after the events \<open>before\<close>.
  They stand outside the \<^verbatim>\<open>try\<close> statement: an exception raised by
  \<^verbatim>\<open>Markdown\<close> leaves the method and nothing is displayed.
\<close>

definition display_and_return :: "world \<Rightarrow> 's \<Rightarrow> event list \<Rightarrow> py_value \<Rightarrow> 's run" where
  "display_and_return w self before answer =
     (case Markdown w answer of
        Inl e \<Rightarrow>
          \<lparr>self_after = self, trace = before @ [Display answer], shown = [], result = Inl e\<rparr>
      | Inr data \<Rightarrow>
          \<lparr>self_after = self, trace = before @ [Display answer], shown = [data],
           result = Inr PyNone\<rparr>)"

section \<open>OpenAIManager\<close>

record OpenAIManager =
  openai_model :: string
  api_key :: "string option"
  client :: openai_client

definition api_key_required :: string where
  "api_key_required =
     ''OpenAI API key is required. Set OPENAI_API_KEY '' @
     ''environment variable or pass api_key parameter.''"

text \<open>
  \<^verbatim>\<open>__init__(self, model="gpt-4o-mini", api_key=None)\<close>. An omitted \<open>model\<close> is
  \<open>None\<close> here and takes the default.
\<close>

definition OpenAIManager_init ::
  "environ \<Rightarrow> string option \<Rightarrow> string option \<Rightarrow> py_exception + OpenAIManager" where
  "OpenAIManager_init env model_arg api_key_arg =
     (let model = (case model_arg of None \<Rightarrow> ''gpt-4o-mini'' | Some m \<Rightarrow> m);
          key = py_or api_key_arg (os_getenv env ''OPENAI_API_KEY'')
      in if \<not> truthy key
         then Inl (PyExc ValueError api_key_required)
         else Inr \<lparr>openai_model = model, api_key = key, client = OpenAI key\<rparr>)"

definition system_prompt :: string where
  "system_prompt =
     ''You are a helpful technical assistant. Provide clear, '' @
     ''detailed explanations for technical questions.''"

text \<open>\<^verbatim>\<open>f"Error: {str(e)}"\<close>\<close>

definition error_answer :: "py_exception \<Rightarrow> py_value" where
  "error_answer e = PyStr (''Error: '' @ exc_str e)"





section \<open>OllamaManager\<close>

record OllamaManager =
  ollama_model :: string
  base_url :: string
  api_url :: string

text \<open>\<^verbatim>\<open>s.rstrip(chars)\<close>: drops every trailing character that occurs in \<open>chars\<close>.\<close>

definition rstrip :: "string \<Rightarrow> string \<Rightarrow> string" where
  "rstrip chars s = rev (dropWhile (\<lambda>c. c \<in> set chars) (rev s))"

text \<open>
  \<^verbatim>\<open>__init__(self, model="llama3.2", base_url="http://localhost:11434")\<close>. An
  omitted argument is \<open>None\<close> here and takes its default.
\<close>

definition OllamaManager_init :: "string option \<Rightarrow> string option \<Rightarrow> OllamaManager" where
  "OllamaManager_init model_arg base_url_arg =
     (let model = (case model_arg of None \<Rightarrow> ''llama3.2'' | Some m \<Rightarrow> m);
          base = (case base_url_arg of None \<Rightarrow> ''http://localhost:11434'' | Some b \<Rightarrow> b);
          stripped = rstrip ''/'' base
      in \<lparr>ollama_model = model, base_url = stripped, api_url = stripped @ ''/api''\<rparr>)"

text \<open>
  \<^verbatim>\<open>_check_ollama_connection\<close>: the handler names
  \<^verbatim>\<open>requests.exceptions.RequestException\<close>, so an exception of another class leaves
  the method.
\<close>

definition check_ollama_connection ::
  "world \<Rightarrow> OllamaManager \<Rightarrow> event list \<times> (py_exception + bool)" where
  "check_ollama_connection w self =
     (let tags = api_url self @ ''/tags'' in
      ([HttpGet tags 5],
       (case requests_get w tags 5 of
          Inr response \<Rightarrow> Inr (status_code response = 200)
        | Inl e \<Rightarrow> if isinstance_RequestException e then Inr False else Inl e)))"

text \<open>Decimal text of a status code, as an f-string prints it.\<close>

fun str_nat_fuel :: "nat \<Rightarrow> nat \<Rightarrow> string" where
  "str_nat_fuel 0 n = []"
| "str_nat_fuel (Suc k) n =
     (if n < 10 then [char_of (48 + n)]
      else str_nat_fuel k (n div 10) @ [char_of (48 + n mod 10)])"

definition str_int :: "int \<Rightarrow> string" where
  "str_int i = (if i < 0 then CHR ''-'' # str_nat_fuel (Suc (nat (- i))) (nat (- i))
                else str_nat_fuel (Suc (nat i)) (nat i))"

text \<open>
  \<^verbatim>\<open>Response.raise_for_status\<close> of \<^verbatim>\<open>requests\<close>: an \<^verbatim>\<open>HTTPError\<close> for a status
  from 400 to 599, nothing otherwise.
\<close>

definition raise_for_status :: "http_response \<Rightarrow> py_exception option" where
  "raise_for_status r =
     (if 400 \<le> status_code r \<and> status_code r < 500
      then Some (PyExc HTTPError
             (str_int (status_code r) @ '' Client Error: '' @ reason r @ '' for url: '' @ url r))
      else if 500 \<le> status_code r \<and> status_code r < 600
      then Some (PyExc HTTPError
             (str_int (status_code r) @ '' Server Error: '' @ reason r @ '' for url: '' @ url r))
      else None)"

fun type_name :: "py_value \<Rightarrow> string" where
  "type_name PyNone = ''NoneType''"
| "type_name (PyBool b) = ''bool''"
| "type_name (PyInt i) = ''int''"
| "type_name (PyFloat f) = ''float''"
| "type_name (PyStr s) = ''str''"
| "type_name (PyList xs) = ''list''"
| "type_name (PyDict kvs) = ''dict''"

text \<open>
  \<^verbatim>\<open>result.get(key, default)\<close>: a dictionary looks the key up; any other decoded
  value has no method \<^verbatim>\<open>get\<close>, which is an \<^verbatim>\<open>AttributeError\<close>.
\<close>

definition py_get :: "py_value \<Rightarrow> string \<Rightarrow> py_value \<Rightarrow> py_exception + py_value" where
  "py_get v key dflt =
     (case v of
        PyDict kvs \<Rightarrow> Inr (case map_of kvs key of None \<Rightarrow> dflt | Some x \<Rightarrow> x)
      | _ \<Rightarrow> Inl (PyExc AttributeError
                 ([CHR 0x27] @ type_name v @ [CHR 0x27] @ '' object has no attribute '' @
                  [CHR 0x27] @ ''get'' @ [CHR 0x27])))"

definition cannot_connect :: string where
  "cannot_connect =
     ''Error: Cannot connect to Ollama. Make sure Ollama is running '' @
     ''on localhost:11434''"

definition ollama_payload :: "OllamaManager \<Rightarrow> string \<Rightarrow> generate_payload" where
  "ollama_payload self question =
     \<lparr>payload_model = ollama_model self,
      payload_prompt = system_prompt @ [CHR 0x0A, CHR 0x0A] @ ''Question: '' @ question,
      payload_stream = False\<rparr>"

text \<open>
  The body of the \<^verbatim>\<open>try\<close> block of \<^verbatim>\<open>display_response\<close>: the value it leaves in
  \<open>response\<close>, or the exception raised by the request, by \<^verbatim>\<open>raise_for_status\<close>, by
  \<^verbatim>\<open>.json()\<close> or by \<^verbatim>\<open>.get\<close>.
\<close>

definition generate_try :: "world \<Rightarrow> OllamaManager \<Rightarrow> string \<Rightarrow> py_exception + py_value" where
  "generate_try w self question =
     (case requests_post w (api_url self @ ''/generate'') (ollama_payload self question) 30 of
        Inl e \<Rightarrow> Inl e
      | Inr api_response \<Rightarrow>
          (case raise_for_status api_response of
             Some e \<Rightarrow> Inl e
           | None \<Rightarrow>
               (case json_result api_response of
                  Inl e \<Rightarrow> Inl e
                | Inr res \<Rightarrow> py_get res ''response'' (PyStr ''No response received''))))"

text \<open>
  The \<^verbatim>\<open>try\<close> statement with its handler \<^verbatim>\<open>except Exception\<close>: the request it
  sends and the answer it leaves in \<open>response\<close>.
\<close>

definition ollama_generate :: "world \<Rightarrow> OllamaManager \<Rightarrow> string \<Rightarrow> event list \<times> py_value" where
  "ollama_generate w self question =
     ([HttpPost (api_url self @ ''/generate'') (ollama_payload self question) 30],
      (case generate_try w self question of
         Inl e \<Rightarrow> error_answer e
       | Inr v \<Rightarrow> v))"

text \<open>
  \<^verbatim>\<open>display_response\<close>: the probe is called outside the \<^verbatim>\<open>try\<close> statement, so an
  exception that leaves the probe leaves this method too; so do the display and
  \<^verbatim>\<open>return None\<close> that follow it. No statement assigns to a field of \<open>self\<close>.
\<close>

definition OllamaManager_display_response ::
  "world \<Rightarrow> OllamaManager \<Rightarrow> string \<Rightarrow> OllamaManager run" where
  "OllamaManager_display_response w self question =
     (case check_ollama_connection w self of
        (probe, Inl e) \<Rightarrow> \<lparr>self_after = self, trace = probe, shown = [], result = Inl e\<rparr>
      | (probe, Inr alive) \<Rightarrow>
          (let (sent, response) =
                 (if \<not> alive then ([], PyStr cannot_connect)
                  else ollama_generate w self question)
           in display_and_return w self (probe @ sent) response))"

section \<open>Mocked transports\<close>

text \<open>
  Concrete worlds for the scenarios below, in the manner of a test's mocked transport.
  \<open>daemon body\<close> is a live daemon whose generate endpoint answers 200 with the
  decoded body \<open>body\<close>, beside a completion API that answers \<open>42\<close>.
\<close>

text \<open>
  In every world below but the last no path exists and no URL opens, so
  \<^verbatim>\<open>Markdown\<close> takes every string that does not start with \<^verbatim>\<open>http\<close> as text.
  \<open>mock_repr\<close> prints the values the scenarios use.
\<close>

definition mock_repr :: "py_value \<Rightarrow> string" where
  "mock_repr v =
     (case v of
        PyInt i \<Rightarrow> str_int i
      | PyBool b \<Rightarrow> (if b then ''True'' else ''False'')
      | _ \<Rightarrow> ''None'')"

definition ok_response :: "py_value \<Rightarrow> http_response" where
  "ok_response body =
     \<lparr>status_code = 200, reason = ''OK'', url = ''http://localhost:11434/api'',
      json_result = Inr body\<rparr>"

definition daemon :: "py_value \<Rightarrow> world" where
  "daemon body =
     \<lparr>chat_completions_create = (\<lambda>c r. Inr \<lparr>choices = [Some ''42'']\<rparr>),
      requests_get = (\<lambda>u t. Inr (ok_response (PyDict []))),
      requests_post = (\<lambda>u p t. Inr (ok_response body)),
      path_exists = (\<lambda>p. False),
      read_file = (\<lambda>p. Inl (PyExc OSError (''[Errno 2] No such file or directory: '' @ p))),
      urlopen = (\<lambda>u. Inl (PyExc OSError ''<urlopen error [Errno 111] Connection refused>'')),
      py_repr = mock_repr\<rparr>"







section \<open>Construction of the remote client\<close>

text \<open>
  C2. Constructing \<^verbatim>\<open>OpenAIManager\<close> with no explicit credential while the process
  environment has no \<^verbatim>\<open>OPENAI_API_KEY\<close> raises the configuration error
  (a \<^verbatim>\<open>ValueError\<close>), for every model argument: the constructor returns the
  exception and no object.
\<close>

theorem init_without_credential_raises:
  assumes "os_getenv env ''OPENAI_API_KEY'' = None"
  shows "OpenAIManager_init env model_arg None = Inl (PyExc ValueError api_key_required)"
  using assms by (simp add: OpenAIManager_init_def Let_def py_or_def truthy_def)

theorem init_without_credential_raises_witness:
  "os_getenv Map.empty ''OPENAI_API_KEY'' = None \<and>
   OpenAIManager_init Map.empty (Some ''gpt-4o'') None = Inl (PyExc ValueError api_key_required)"
proof -
  have h: "os_getenv Map.empty ''OPENAI_API_KEY'' = None"
    by (simp add: os_getenv_def)
  show ?thesis
    using h init_without_credential_raises [OF h, of "Some ''gpt-4o''"] by simp
qed

text \<open>
  C5, as stated: an explicit credential always makes construction succeed. It does not
  when the explicit credential is the empty string and the environment has none:
  \<^verbatim>\<open>api_key or os.getenv(...)\<close> discards the empty string and the guard
  \<^verbatim>\<open>if not self.api_key\<close> raises.
\<close>

theorem explicit_empty_credential_counterexample:
  "OpenAIManager_init Map.empty None (Some '''') = Inl (PyExc ValueError api_key_required)"
  by (simp add: OpenAIManager_init_def Let_def py_or_def truthy_def os_getenv_def)

text \<open>
  C5, amended: constructing \<^verbatim>\<open>OpenAIManager\<close> with an explicit non-empty credential
  succeeds for every state of the environment and every model argument, and both the
  stored credential and the key the client handle was built with are the explicit
  argument.
\<close>

theorem init_with_nonempty_credential:
  assumes "k \<noteq> []"
  shows "OpenAIManager_init env model_arg (Some k) =
           Inr \<lparr>openai_model = (case model_arg of None \<Rightarrow> ''gpt-4o-mini'' | Some m \<Rightarrow> m),
                api_key = Some k, client = OpenAI (Some k)\<rparr>"
  using assms by (simp add: OpenAIManager_init_def Let_def py_or_def truthy_def)

theorem init_with_nonempty_credential_witness:
  "''sk-arg'' \<noteq> [] \<and>
   OpenAIManager_init [''OPENAI_API_KEY'' \<mapsto> ''sk-env''] None (Some ''sk-arg'') =
     Inr \<lparr>openai_model = ''gpt-4o-mini'', api_key = Some ''sk-arg'',
          client = OpenAI (Some ''sk-arg'')\<rparr>"
proof -
  have h: "''sk-arg'' \<noteq> []"
    by simp
  show ?thesis
    using h init_with_nonempty_credential [OF h, of "[''OPENAI_API_KEY'' \<mapsto> ''sk-env'']" None]
    by simp
qed

text \<open>
  C10. An explicit empty-string credential is treated as no credential: the
  constructor gives exactly what it gives without the argument. So it raises the
  configuration error when the environment variable is unset or empty, and otherwise
  succeeds with the environment's value stored.
\<close>

theorem empty_credential_as_absent:
  "OpenAIManager_init env model_arg (Some '''') = OpenAIManager_init env model_arg None \<and>
   (os_getenv env ''OPENAI_API_KEY'' = None \<or> os_getenv env ''OPENAI_API_KEY'' = Some '''' \<longrightarrow>
      OpenAIManager_init env model_arg (Some '''') = Inl (PyExc ValueError api_key_required)) \<and>
   (\<forall>k. os_getenv env ''OPENAI_API_KEY'' = Some k \<and> k \<noteq> [] \<longrightarrow>
      (\<exists>m. OpenAIManager_init env model_arg (Some '''') = Inr m \<and> api_key m = Some k))"
  by (auto simp add: OpenAIManager_init_def Let_def py_or_def truthy_def)

theorem empty_credential_as_absent_witness:
  "(os_getenv Map.empty ''OPENAI_API_KEY'' = None \<or>
    os_getenv Map.empty ''OPENAI_API_KEY'' = Some '''') \<and>
   os_getenv [''OPENAI_API_KEY'' \<mapsto> ''sk-env''] ''OPENAI_API_KEY'' = Some ''sk-env'' \<and>
   ''sk-env'' \<noteq> [] \<and>
   OpenAIManager_init Map.empty None (Some '''') = OpenAIManager_init Map.empty None None \<and>
   OpenAIManager_init Map.empty None (Some '''') = Inl (PyExc ValueError api_key_required) \<and>
   (\<exists>m. OpenAIManager_init [''OPENAI_API_KEY'' \<mapsto> ''sk-env''] None (Some '''') = Inr m \<and>
        api_key m = Some ''sk-env'')"
proof -
  have unset: "os_getenv Map.empty ''OPENAI_API_KEY'' = None \<or>
               os_getenv Map.empty ''OPENAI_API_KEY'' = Some ''''"
    by (simp add: os_getenv_def)
  have set: "os_getenv [''OPENAI_API_KEY'' \<mapsto> ''sk-env''] ''OPENAI_API_KEY'' = Some ''sk-env''"
    by (simp add: os_getenv_def)
  have nonempty: "''sk-env'' \<noteq> []"
    by simp
  note a = empty_credential_as_absent [of Map.empty None]
  note b = empty_credential_as_absent [of "[''OPENAI_API_KEY'' \<mapsto> ''sk-env'']" None]
  from a unset have "OpenAIManager_init Map.empty None (Some '''') =
      OpenAIManager_init Map.empty None None"
    and "OpenAIManager_init Map.empty None (Some '''') = Inl (PyExc ValueError api_key_required)"
    by blast+
  moreover from b set nonempty
  have "\<exists>m. OpenAIManager_init [''OPENAI_API_KEY'' \<mapsto> ''sk-env''] None (Some '''') = Inr m \<and>
        api_key m = Some ''sk-env''"
    by blast
  ultimately show ?thesis using unset set nonempty by blast
qed

section \<open>The display and the return\<close>







section \<open>The local client's Ask\<close>


lemma probe_alive:
  assumes "requests_get w (api_url self @ ''/tags'') 5 = Inr r" and "status_code r = 200"
  shows "check_ollama_connection w self = ([HttpGet (api_url self @ ''/tags'') 5], Inr True)"
  using assms by (simp add: check_ollama_connection_def Let_def)

lemma probe_escapes:
  assumes "requests_get w (api_url self @ ''/tags'') 5 = Inl e" and "\<not> isinstance_RequestException e"
  shows "check_ollama_connection w self = ([HttpGet (api_url self @ ''/tags'') 5], Inl e)"
  using assms by (simp add: check_ollama_connection_def Let_def)


lemma reachable_run:
  assumes "check_ollama_connection w self = (probe, Inr True)"
  shows "OllamaManager_display_response w self question =
           display_and_return w self (probe @ fst (ollama_generate w self question))
             (snd (ollama_generate w self question))"
  using assms by (simp add: OllamaManager_display_response_def split: prod.splits)









lemma generate_sends_one_post:
  "fst (ollama_generate w self question) =
     [HttpPost (api_url self @ ''/generate'') (ollama_payload self question) 30]"
  by (simp add: ollama_generate_def)

lemma alive_run:
  assumes "requests_get w (api_url self @ ''/tags'') 5 = Inr p" and "status_code p = 200"
  shows "OllamaManager_display_response w self question =
           display_and_return w self
             [HttpGet (api_url self @ ''/tags'') 5,
              HttpPost (api_url self @ ''/generate'') (ollama_payload self question) 30]
             (snd (ollama_generate w self question))"
  using reachable_run [OF probe_alive [OF assms], of question]
  by (simp add: generate_sends_one_post)


lemma str_int_42: "str_int 42 = ''42''"
  by code_simp

text \<open>
  A \<^verbatim>\<open>response\<close> field that is not a string: \<^verbatim>\<open>Markdown\<close> raises, outside the
  \<^verbatim>\<open>try\<close> statement, so the \<^verbatim>\<open>TypeError\<close> leaves Ask and nothing is displayed.
\<close>

lemma number_response_raises:
  "result (OllamaManager_display_response (daemon (PyDict [(''response'', PyInt 42)]))
             (OllamaManager_init None None) ''hi'') =
     Inl (PyExc TypeError ''Markdown expects text, not 42'') \<and>
   shown (OllamaManager_display_response (daemon (PyDict [(''response'', PyInt 42)]))
             (OllamaManager_init None None) ''hi'') = []"
proof -
  let ?w = "daemon (PyDict [(''response'', PyInt 42)])"
  let ?self = "OllamaManager_init None None"
  have probe: "requests_get ?w (api_url ?self @ ''/tags'') 5 = Inr (ok_response (PyDict []))"
    and ok: "status_code (ok_response (PyDict [])) = 200"
    by (simp_all add: daemon_def ok_response_def)
  have answer: "snd (ollama_generate ?w ?self ''hi'') = PyInt 42"
    by (simp add: ollama_generate_def generate_try_def daemon_def ok_response_def
        raise_for_status_def py_get_def)
  have "Markdown ?w (PyInt 42) = Inl (PyExc TypeError ''Markdown expects text, not 42'')"
    by (simp add: Markdown_def daemon_def mock_repr_def str_int_42)
  then show ?thesis
    by (simp add: alive_run [OF probe ok] answer display_and_return_def)
qed




section \<open>The remote client's Ask\<close>






section \<open>Construction of the local client\<close>

lemma takeWhile_eq_replicate:
  "takeWhile (\<lambda>x. x = c) xs = replicate (length (takeWhile (\<lambda>x. x = c) xs)) c"
  by (induction xs) simp_all

lemma rstrip_slash_decompose:
  "\<exists>n. s = rstrip ''/'' s @ replicate n CHR ''/''"
proof -
  let ?P = "\<lambda>c. c = CHR ''/''"
  have "s = rev (takeWhile ?P (rev s) @ dropWhile ?P (rev s))"
    by (simp only: takeWhile_dropWhile_id rev_rev_ident)
  then have "s = rev (dropWhile ?P (rev s)) @ rev (takeWhile ?P (rev s))"
    by (simp only: rev_append)
  moreover have "rev (takeWhile ?P (rev s)) = replicate (length (takeWhile ?P (rev s))) CHR ''/''"
    using takeWhile_eq_replicate [of "CHR ''/''" "rev s"] by (metis rev_replicate)
  ultimately have "s = rstrip ''/'' s @ replicate (length (takeWhile ?P (rev s))) CHR ''/''"
    by (simp add: rstrip_def)
  then show ?thesis ..
qed

lemma rstrip_slash_no_trailing:
  "rstrip ''/'' s = [] \<or> last (rstrip ''/'' s) \<noteq> CHR ''/''"
proof (cases "dropWhile (\<lambda>c. c = CHR ''/'') (rev s) = []")
  case True
  then show ?thesis by (simp add: rstrip_def)
next
  case False
  then have "hd (dropWhile (\<lambda>c. c = CHR ''/'') (rev s)) \<noteq> CHR ''/''"
    using hd_dropWhile [of "\<lambda>c. c = CHR ''/''" "rev s"] by simp
  with False show ?thesis
    by (simp add: rstrip_def last_rev)
qed

text \<open>
  C7. For every base URL \<open>b\<close>, the constructed local client stores \<open>b\<close> without its
  trailing slash characters: \<open>b\<close> is the stored URL followed by slashes only, and the
  stored URL does not end in a slash. The API root is the stored URL followed by
  \<^verbatim>\<open>/api\<close>. An omitted base URL is \<^verbatim>\<open>http://localhost:11434\<close>. The constructor
  reads no credential: it takes neither a key nor the environment, and the object has
  no field for one.
\<close>

theorem local_init_normalises:
  "(\<exists>n. b = base_url (OllamaManager_init model_arg (Some b)) @ replicate n CHR ''/'') \<and>
   (base_url (OllamaManager_init model_arg (Some b)) = [] \<or>
    last (base_url (OllamaManager_init model_arg (Some b))) \<noteq> CHR ''/'') \<and>
   api_url (OllamaManager_init model_arg base_url_arg) =
     base_url (OllamaManager_init model_arg base_url_arg) @ ''/api'' \<and>
   OllamaManager_init model_arg None = OllamaManager_init model_arg (Some ''http://localhost:11434'') \<and>
   base_url (OllamaManager_init model_arg None) = ''http://localhost:11434''"
proof (intro conjI)
  show "\<exists>n. b = base_url (OllamaManager_init model_arg (Some b)) @ replicate n CHR ''/''"
    using rstrip_slash_decompose [of b] by (simp add: OllamaManager_init_def Let_def)
  show "base_url (OllamaManager_init model_arg (Some b)) = [] \<or>
    last (base_url (OllamaManager_init model_arg (Some b))) \<noteq> CHR ''/''"
    using rstrip_slash_no_trailing [of b] by (simp add: OllamaManager_init_def Let_def)
  show "api_url (OllamaManager_init model_arg base_url_arg) =
     base_url (OllamaManager_init model_arg base_url_arg) @ ''/api''"
    by (simp add: OllamaManager_init_def Let_def)
  show "OllamaManager_init model_arg None = OllamaManager_init model_arg (Some ''http://localhost:11434'')"
    by (simp add: OllamaManager_init_def Let_def)
  show "base_url (OllamaManager_init model_arg None) = ''http://localhost:11434''"
    by (simp add: OllamaManager_init_def Let_def rstrip_def)
qed

theorem local_init_normalises_witness:
  "OllamaManager_init None (Some ''http://gpu-box:8080//'') =
     \<lparr>ollama_model = ''llama3.2'', base_url = ''http://gpu-box:8080'',
      api_url = ''http://gpu-box:8080/api''\<rparr> \<and>
   ''http://gpu-box:8080//'' = ''http://gpu-box:8080'' @ replicate 2 CHR ''/'' \<and>
   last (base_url (OllamaManager_init None (Some ''http://gpu-box:8080//''))) \<noteq> CHR ''/''"
proof -
  have made: "OllamaManager_init None (Some ''http://gpu-box:8080//'') =
     \<lparr>ollama_model = ''llama3.2'', base_url = ''http://gpu-box:8080'',
      api_url = ''http://gpu-box:8080/api''\<rparr>"
    by (simp add: OllamaManager_init_def Let_def rstrip_def)
  then have nonempty: "base_url (OllamaManager_init None (Some ''http://gpu-box:8080//'')) \<noteq> []"
    by simp
  from local_init_normalises [of "''http://gpu-box:8080//''" None] nonempty
  have "last (base_url (OllamaManager_init None (Some ''http://gpu-box:8080//''))) \<noteq> CHR ''/''"
    by blast
  with made show ?thesis by (simp add: numeral_2_eq_2)
qed

section \<open>Failures during Ask, and what Ask leaves behind\<close>


















end
